theory Spec2Isabelle
  imports Complex_Main
begin

section \<open>AI marketplace: configuration and cost of a commission\<close>

text \<open>
  The Flask configuration of \<^verbatim>\<open>aimarket/__init__.py\<close>, restricted to the three keys
  that the job pipeline reads. All three are Python integers.
\<close>

record config =
  TIME_COST :: int
  DEFAULT_COST :: int
  WAIT_PAYMENT :: int

text \<open>The values that \<^verbatim>\<open>create_app\<close> installs when no instance configuration overrides them.\<close>

definition app_config :: config where
  "app_config = \<lparr>TIME_COST = 100, DEFAULT_COST = 1000, WAIT_PAYMENT = 10\<rparr>"

text \<open>
  Python's \<^verbatim>\<open>int(x)\<close> on a number: the integer part of \<open>x\<close>, rounded towards zero.
\<close>

definition py_int :: "rat \<Rightarrow> int" where
  "py_int x = (if 0 \<le> x then \<lfloor>x\<rfloor> else \<lceil>x\<rceil>)"

text \<open>
  \<^verbatim>\<open>calc_cost(average_time, surcharge=0, config=None)\<close> of \<^verbatim>\<open>aimarket/artist.py\<close>.
  The first argument of the model is \<^verbatim>\<open>current_app.config\<close>, which the source reads when
  it is called without a configuration. \<^verbatim>\<open>average_time\<close> is a nullable column and
  \<^verbatim>\<open>surcharge\<close> comes from a form field that nothing validates, so both are Python numbers
  that need not be integers: they are rationals here (the rounding of floating-point
  arithmetic is not modelled). The result is what \<^verbatim>\<open>int(surcharge + time_cost)\<close> gives.
\<close>

definition calc_cost :: "config \<Rightarrow> rat option \<Rightarrow> rat \<Rightarrow> config option \<Rightarrow> int" where
  "calc_cost current_app_config average_time surcharge config =
     (let config = (case config of None \<Rightarrow> current_app_config | Some c \<Rightarrow> c);
          time_cost = (case average_time of
                         None \<Rightarrow> of_int (DEFAULT_COST config)
                       | Some t \<Rightarrow> t * of_int (TIME_COST config));
          cost = py_int (surcharge + time_cost)
      in cost)"

section \<open>IOTA Canvas client: choosing an artist\<close>

text \<open>Exceptions of the Python side. \<open>Raised\<close> stands for an exception that an external
  collaborator (the IOTA client library, an uploaded artist plugin) raises; it carries
  the exception's name.\<close>

datatype py_error = ValueError | TypeError | Raised string

text \<open>One entry of the JSON list served by \<^verbatim>\<open>/artist-list\<close>: the artist's id (the key
  \<^verbatim>\<open>id\<close> of the dictionary), its cost and its genre.\<close>

record listing =
  artist_id :: int
  cost :: int
  genre_name :: string

text \<open>
  \<^verbatim>\<open>IotaCanvas.choose_artist\<close> of \<^verbatim>\<open>iotacanvas/iotacanvas.py\<close>. The \<^verbatim>\<open>for\<close> loop is
  \<open>choose_loop\<close>, whose first argument is \<^verbatim>\<open>best_choice\<close>; the loop runs over the whole
  list, first element included. A missing (\<^verbatim>\<open>None\<close>) or empty list raises
  \<^verbatim>\<open>ValueError\<close>.
\<close>

fun choose_loop :: "listing \<Rightarrow> listing list \<Rightarrow> listing" where
  "choose_loop best_choice [] = best_choice"
| "choose_loop best_choice (artist # rest) =
     choose_loop (if cost best_choice > cost artist then artist else best_choice) rest"

definition choose_artist :: "listing list option \<Rightarrow> py_error + listing" where
  "choose_artist artist_list =
     (case artist_list of
        None \<Rightarrow> Inl ValueError
      | Some [] \<Rightarrow> Inl ValueError
      | Some (first # rest) \<Rightarrow> Inr (choose_loop first (first # rest)))"

section \<open>IOTA Canvas client: the event queue\<close>

text \<open>
  The classes of \<^verbatim>\<open>iotacanvas/common/synchro.py\<close>. An \<open>IotaCanvasEvent\<close> has a name and
  optional data; a \<open>PrioritizedItem\<close> wraps one with its priority (the field that the
  source calls \<^verbatim>\<open>data\<close> is \<open>item\<close> here, to keep it apart from the event's own data).
  The notifier queue holds the events themselves and the value \<^verbatim>\<open>True\<close> that the
  callback of the stop event posts.
\<close>

datatype IotaCanvasEvent = IotaCanvasEvent (name: string) (data: "string option")

datatype PrioritizedItem = PrioritizedItem (priority: int) (item: IotaCanvasEvent)

datatype notification = PyTrue | Item IotaCanvasEvent

text \<open>
  An \<^verbatim>\<open>EventQueue\<close> together with the \<^verbatim>\<open>threading.Event\<close> it is waited on with:
  \<^item> \<open>queue\<close> is the content of \<^verbatim>\<open>_queue\<close>, the \<^verbatim>\<open>PriorityQueue\<close>, in insertion order
    (created with \<^verbatim>\<open>maxsize=0\<close>, it is never full);
  \<^item> \<open>notifier\<close> is \<^verbatim>\<open>_notifier\<close>, a first-in first-out \<^verbatim>\<open>Queue\<close>, oldest element first;
  \<^item> \<open>flag\<close> is the state of the event and \<open>is_callback\<close> says whether
    \<^verbatim>\<open>convert_to_callback_event\<close> has replaced its \<^verbatim>\<open>set\<close> and \<^verbatim>\<open>clear\<close>.
\<close>

record sync =
  queue :: "PrioritizedItem list"
  notifier :: "notification list"
  flag :: bool
  is_callback :: bool

definition new_sync :: sync where
  "new_sync = \<lparr>queue = [], notifier = [], flag = False, is_callback = False\<rparr>"

definition cb_put :: "notification \<Rightarrow> sync \<Rightarrow> sync" where
  "cb_put x s = s\<lparr>notifier := notifier s @ [x]\<rparr>"

definition put :: "string \<Rightarrow> string option \<Rightarrow> int \<Rightarrow> sync \<Rightarrow> sync" where
  "put event_name d prio s =
     (let ev = IotaCanvasEvent event_name d;
          priority_item = PrioritizedItem prio ev
      in cb_put (Item ev) (s\<lparr>queue := queue s @ [priority_item]\<rparr>))"

text \<open>\<^verbatim>\<open>event.set()\<close> and \<^verbatim>\<open>event.clear()\<close>: once the event is a callback event, both also
  post \<^verbatim>\<open>True\<close> to the notifier (\<^verbatim>\<open>cb_set\<close>, \<^verbatim>\<open>cb_clear\<close>).\<close>

definition event_set :: "sync \<Rightarrow> sync" where
  "event_set s = (if is_callback s then cb_put PyTrue (s\<lparr>flag := True\<rparr>) else s\<lparr>flag := True\<rparr>)"

definition event_clear :: "sync \<Rightarrow> sync" where
  "event_clear s = (if is_callback s then cb_put PyTrue (s\<lparr>flag := False\<rparr>) else s\<lparr>flag := False\<rparr>)"

definition convert_to_callback_event :: "sync \<Rightarrow> sync" where
  "convert_to_callback_event s = (if is_callback s then s else s\<lparr>is_callback := True\<rparr>)"

definition clear_notifier :: "sync \<Rightarrow> sync" where
  "clear_notifier s = s\<lparr>notifier := []\<rparr>"

text \<open>
  \<^verbatim>\<open>get_and_wait_on_event\<close> blocks in \<^verbatim>\<open>self._notifier.get(timeout=timeout)\<close>. What it
  returns depends on what the other threads do meanwhile, so the model takes their
  operations, in the order in which they happen until the timeout, as a list of
  \<open>action\<close>s. \<open>notifier_get\<close> is the blocking \<^verbatim>\<open>get\<close>: it takes the oldest element of the
  notifier as soon as there is one, lets the next action happen while there is none, and
  raises \<^verbatim>\<open>queue.Empty\<close> when the time is up.
\<close>

datatype action = Put string "string option" int | Set | Clear

fun perform :: "action \<Rightarrow> sync \<Rightarrow> sync" where
  "perform (Put event_name d prio) s = put event_name d prio s"
| "perform Set s = event_set s"
| "perform Clear s = event_clear s"

datatype wait_result = Returned notification | Empty

fun notifier_get :: "action list \<Rightarrow> sync \<Rightarrow> wait_result \<times> sync" where
  "notifier_get acts s =
     (case notifier s of
        x # rest \<Rightarrow> (Returned x, s\<lparr>notifier := rest\<rparr>)
      | [] \<Rightarrow> (case acts of
                 [] \<Rightarrow> (Empty, s)
               | a # later \<Rightarrow> notifier_get later (perform a s)))"

definition get_and_wait_on_event :: "action list \<Rightarrow> sync \<Rightarrow> wait_result \<times> sync" where
  "get_and_wait_on_event acts s =
     (let s = convert_to_callback_event s
      in if flag s then (Returned PyTrue, s)
         else notifier_get acts (clear_notifier s))"

declare notifier_get.simps [simp del]

section \<open>AI marketplace: address allocation\<close>








section \<open>AI marketplace: the job ledger\<close>

text \<open>
  The rows of the tables \<^verbatim>\<open>job\<close> and \<^verbatim>\<open>artist\<close>, with the columns that the job pipeline
  reads or writes. \<^verbatim>\<open>completed\<close> is a timestamp, in seconds; it and \<^verbatim>\<open>filename\<close> are
  \<^verbatim>\<open>NULL\<close> until the job is completed.
\<close>

record job_row =
  access_key :: string
  addr_index :: int
  ai_id :: int
  completed :: "int option"
  filename :: "string option"

record artist_row =
  code :: string
  surcharge :: rat
  average_time :: "rat option"

text \<open>The database and the wall clock (\<^verbatim>\<open>datetime.datetime.now()\<close>, in seconds).\<close>

record world =
  job_table :: "int \<rightharpoonup> job_row"
  artist_table :: "int \<rightharpoonup> artist_row"
  clock :: int







text \<open>
  The two statements with which \<^verbatim>\<open>art_generator\<close> ends a job: the \<^verbatim>\<open>DELETE\<close> of a job
  that timed out, and the \<^verbatim>\<open>UPDATE\<close> that stores the completion time (the clock's value)
  and the file name. Both address the row by id and do nothing when there is none.
\<close>

definition delete_job :: "world \<Rightarrow> int \<Rightarrow> world" where
  "delete_job w job_id = w\<lparr>job_table := (job_table w)(job_id := None)\<rparr>"

definition update_job_completed :: "world \<Rightarrow> int \<Rightarrow> string \<Rightarrow> world" where
  "update_job_completed w job_id fname =
     (case job_table w job_id of
        None \<Rightarrow> w
      | Some j \<Rightarrow> w\<lparr>job_table :=
          (job_table w)(job_id \<mapsto> j\<lparr>completed := Some (clock w), filename := Some fname\<rparr>)\<rparr>)"

section \<open>AI marketplace: the payment watcher\<close>

text \<open>
  \<^verbatim>\<open>IotaUtil.get_balance(index)\<close>. \<open>get_account_data\<close> is the IOTA client library, which
  asks a remote node: given the start and stop index and the time at which the query
  starts, it returns the balance or raises, after a number of seconds.
\<close>

type_synonym iotaapi = "int \<Rightarrow> int \<Rightarrow> int \<Rightarrow> (py_error + int) \<times> nat"

definition get_balance :: "iotaapi \<Rightarrow> int \<Rightarrow> int \<Rightarrow> (py_error + int) \<times> nat" where
  "get_balance get_account_data index now =
     (let stop_index = index + 1 in get_account_data index stop_index now)"

definition BALANCE_CHECK_INTERVAL :: int where
  "BALANCE_CHECK_INTERVAL = 30"

text \<open>
  The polling loop of \<^verbatim>\<open>art_generator\<close>. Time is the clock's value in seconds:
  \<^verbatim>\<open>time.sleep(BALANCE_CHECK_INTERVAL)\<close> lasts that many seconds, the balance query that
  follows lasts as long as the client library takes (seconds by which a sleep is late
  count as part of the query), and the other statements take no time. \<open>query\<close> is the
  balance query of the job's address that starts at a given time.
  The result is the last balance, or the exception that a query raised (nothing in the
  loop catches it), with the time at which the loop ended.
\<close>

function poll_payment ::
  "(int \<Rightarrow> (py_error + int) \<times> nat) \<Rightarrow> int \<Rightarrow> int \<Rightarrow> int \<Rightarrow> int \<Rightarrow> (py_error + int) \<times> int" where
  "poll_payment query required_balance deadline balance now =
     (if balance < required_balance \<and> now < deadline then
        (case query (now + BALANCE_CHECK_INTERVAL) of
           (Inl e, duration) \<Rightarrow> (Inl e, now + BALANCE_CHECK_INTERVAL + int duration)
         | (Inr b, duration) \<Rightarrow>
             poll_payment query required_balance deadline b
               (now + BALANCE_CHECK_INTERVAL + int duration))
      else (Inr balance, now))"
  by pat_completeness auto
termination
  by (relation "measure (\<lambda>(query, required_balance, deadline, balance, now). nat (deadline - now))")
     (auto simp: BALANCE_CHECK_INTERVAL_def)

declare poll_payment.simps [simp del]

text \<open>
  The time at which the loop, started at \<open>now\<close>, has gone round \<open>k\<close> times: each round is
  the sleep and the query that starts when the sleep ends.
\<close>

fun poll_time :: "(int \<Rightarrow> (py_error + int) \<times> nat) \<Rightarrow> nat \<Rightarrow> int \<Rightarrow> int" where
  "poll_time query 0 now = now"
| "poll_time query (Suc k) now =
     poll_time query k now + BALANCE_CHECK_INTERVAL
       + int (snd (query (poll_time query k now + BALANCE_CHECK_INTERVAL)))"

text \<open>The row that \<^verbatim>\<open>art_generator\<close> selects from \<^verbatim>\<open>job JOIN artist\<close>: there is one only
  when the job exists and its artist does.\<close>

definition select_info :: "world \<Rightarrow> int \<Rightarrow> (int \<times> string \<times> rat \<times> rat option) option" where
  "select_info w job_id =
     (case job_table w job_id of
        None \<Rightarrow> None
      | Some j \<Rightarrow> (case artist_table w (ai_id j) of
                    None \<Rightarrow> None
                  | Some a \<Rightarrow> Some (addr_index j, code a, surcharge a, average_time a)))"

text \<open>
  \<^verbatim>\<open>art_generator(job_id, iota, config)\<close>. \<open>plugin\<close> is the artist's code: given the value
  of the column \<^verbatim>\<open>code\<close>, importing the module and calling its \<^verbatim>\<open>run\<close> returns a file name
  or raises. The result is the exception that ended the thread, if any, and the database
  and clock it leaves behind. \<^verbatim>\<open>wait_time\<close> is \<^verbatim>\<open>WAIT_PAYMENT\<close> minutes, in seconds. The
  configuration is passed on to \<open>calc_cost\<close>, which therefore does not read the
  application's.
\<close>

definition art_generator ::
  "int \<Rightarrow> iotaapi \<Rightarrow> config \<Rightarrow> (string \<Rightarrow> py_error + string) \<Rightarrow> world \<Rightarrow> (py_error + unit) \<times> world" where
  "art_generator job_id iota cfg plugin w =
     (case select_info w job_id of
        None \<Rightarrow> (Inl TypeError, w)
      | Some (addr_idx, code_path, sur, avg) \<Rightarrow>
          (let required_balance = calc_cost cfg avg sur (Some cfg);
               wait_time = 60 * WAIT_PAYMENT cfg;
               start_time = clock w
           in case poll_payment (get_balance iota addr_idx) required_balance
                     (start_time + wait_time) 0 start_time of
                (Inl e, now) \<Rightarrow> (Inl e, w\<lparr>clock := now\<rparr>)
              | (Inr balance, now) \<Rightarrow>
                  if balance < required_balance
                  then (Inr (), delete_job (w\<lparr>clock := now\<rparr>) job_id)
                  else (case plugin code_path of
                          Inl e \<Rightarrow> (Inl e, w\<lparr>clock := now\<rparr>)
                        | Inr fname \<Rightarrow> (Inr (), update_job_completed (w\<lparr>clock := now\<rparr>) job_id fname))))"

section \<open>Example data\<close>

text \<open>Three listings with the costs 5, 3 and 3, told apart by their ids.\<close>

definition example_listing :: "listing list" where
  "example_listing =
     [\<lparr>artist_id = 10, cost = 5, genre_name = ''abstract''\<rparr>,
      \<lparr>artist_id = 11, cost = 3, genre_name = ''abstract''\<rparr>,
      \<lparr>artist_id = 12, cost = 3, genre_name = ''abstract''\<rparr>]"

text \<open>A job table with the single pending job 1, whose access key is \<open>k1\<close>, and a
  database around it; the job's artist has no surcharge and no known average time.\<close>

definition example_job :: job_row where
  "example_job =
     \<lparr>access_key = ''k1'', addr_index = 0, ai_id = 1, completed = None, filename = None\<rparr>"

definition example_jobs :: "int \<rightharpoonup> job_row" where
  "example_jobs = [1 \<mapsto> example_job]"

definition example_world :: world where
  "example_world =
     \<lparr>job_table = example_jobs,
      artist_table = [1 \<mapsto> \<lparr>code = ''a1b2c3d4/artist'', surcharge = 0, average_time = None\<rparr>],
      clock = 0\<rparr>"




text \<open>An artist plugin that produces \<open>art.png\<close>, and five ledgers. On two of them nothing
  is ever paid: one answers at once, the other after 29 seconds. One answers at once,
  fails when asked at second 30 and shows a payment of 1000 at every other time. One
  answers after 2 seconds, shows no payment and fails when asked at second 60 or later.
  The last one fails at once at every query.\<close>

definition example_plugin :: "string \<Rightarrow> py_error + string" where
  "example_plugin code_path = Inr ''art.png''"



definition flaky_ledger :: iotaapi where
  "flaky_ledger start stop t =
     (if t = 30 then (Inl (Raised ''ConnectionError''), 0) else (Inr 1000, 0))"

definition failing_ledger :: iotaapi where
  "failing_ledger start stop t =
     (if t < 60 then (Inr 0, 2) else (Inl (Raised ''ConnectionError''), 2))"




section \<open>Properties of the cost formula\<close>





section \<open>Choosing the cheapest artist\<close>

text \<open>
  The loop invariant: when the part \<open>pre\<close> of the list has been visited, \<open>best\<close> is
  the element at the first position of minimal cost in \<open>pre\<close>; the loop over the rest
  then ends at the first position of minimal cost in the whole list.
\<close>

lemma choose_loop_first_min:
  assumes "i < length pre" and "best = pre ! i"
    and "\<forall>j<length pre. cost (pre ! i) \<le> cost (pre ! j)"
    and "\<forall>j<i. cost (pre ! i) < cost (pre ! j)"
  shows "\<exists>k<length (pre @ rest). choose_loop best rest = (pre @ rest) ! k
           \<and> (\<forall>j<length (pre @ rest). cost ((pre @ rest) ! k) \<le> cost ((pre @ rest) ! j))
           \<and> (\<forall>j<k. cost ((pre @ rest) ! k) < cost ((pre @ rest) ! j))"
  using assms
proof (induction rest arbitrary: pre i best)
  case Nil
  then show ?case by auto
next
  case (Cons a rest)
  let ?pre = "pre @ [a]"
  show ?case
  proof (cases "cost best > cost a")
    case True
    have 1: "length pre < length ?pre" by simp
    have 2: "a = ?pre ! length pre" by simp
    have 3: "\<forall>j<length ?pre. cost (?pre ! length pre) \<le> cost (?pre ! j)"
      using Cons.prems True by (auto simp: nth_append less_Suc_eq)
    have 4: "\<forall>j<length pre. cost (?pre ! length pre) < cost (?pre ! j)"
      using Cons.prems True by (auto simp: nth_append)
    from Cons.IH [OF 1 2 3 4] True show ?thesis by simp
  next
    case False
    have 1: "i < length ?pre" using Cons.prems by simp
    have 2: "best = ?pre ! i" using Cons.prems by (simp add: nth_append)
    have 3: "\<forall>j<length ?pre. cost (?pre ! i) \<le> cost (?pre ! j)"
      using Cons.prems False by (auto simp: nth_append less_Suc_eq)
    have 4: "\<forall>j<i. cost (?pre ! i) < cost (?pre ! j)"
      using Cons.prems by (auto simp: nth_append)
    from Cons.IH [OF 1 2 3 4] False show ?thesis by simp
  qed
qed

text \<open>
  C2: on every non-empty list \<open>choose_artist\<close> returns the element at a position \<open>i\<close>
  whose cost is minimal in the list and strictly below the cost of every earlier
  element, that is, the first element of minimal cost in listing order.
\<close>

theorem choose_artist_first_minimum:
  assumes "artist_list \<noteq> []"
  shows "\<exists>i<length artist_list.
           choose_artist (Some artist_list) = Inr (artist_list ! i)
           \<and> (\<forall>j<length artist_list. cost (artist_list ! i) \<le> cost (artist_list ! j))
           \<and> (\<forall>j<i. cost (artist_list ! i) < cost (artist_list ! j))"
proof -
  from assms obtain a rest where xs: "artist_list = a # rest"
    by (cases artist_list) auto
  have "\<exists>k<length ([a] @ rest). choose_loop a rest = ([a] @ rest) ! k
           \<and> (\<forall>j<length ([a] @ rest). cost (([a] @ rest) ! k) \<le> cost (([a] @ rest) ! j))
           \<and> (\<forall>j<k. cost (([a] @ rest) ! k) < cost (([a] @ rest) ! j))"
    by (rule choose_loop_first_min [where i = 0]) simp_all
  then show ?thesis by (simp add: xs choose_artist_def)
qed

text \<open>The example of the claim: with the costs 5, 3, 3 the element at index 1 is returned,
  and it is not the element at index 2.\<close>

theorem choose_artist_first_minimum_witness:
  "example_listing \<noteq> []
   \<and> choose_artist (Some example_listing) = Inr (example_listing ! 1)
   \<and> example_listing ! 1 \<noteq> example_listing ! 2
   \<and> (\<exists>i<length example_listing.
           choose_artist (Some example_listing) = Inr (example_listing ! i)
           \<and> (\<forall>j<length example_listing. cost (example_listing ! i) \<le> cost (example_listing ! j))
           \<and> (\<forall>j<i. cost (example_listing ! i) < cost (example_listing ! j)))"
proof -
  have ne: "example_listing \<noteq> []" by (simp add: example_listing_def)
  from choose_artist_first_minimum [OF ne] show ?thesis
    by (simp add: example_listing_def choose_artist_def)
qed

section \<open>The event queue\<close>

text \<open>
  C3: an event of priority 1 is put before the main loop waits; while it waits (the stop
  event is not set) another thread puts an event of priority 100. The wait returns the
  event of priority 100, the first notification posted since the wait began, although the
  priority queue holds the event of priority 1; neither event leaves the priority queue.
\<close>

theorem get_and_wait_on_event_ignores_priority:
  "flag (put ''LOW_BALANCE'' None 1 new_sync) = False
   \<and> fst (get_and_wait_on_event [Put ''ARTWORK_UPDATED'' None 100]
            (put ''LOW_BALANCE'' None 1 new_sync))
       = Returned (Item (IotaCanvasEvent ''ARTWORK_UPDATED'' None))
   \<and> queue (snd (get_and_wait_on_event [Put ''ARTWORK_UPDATED'' None 100]
                   (put ''LOW_BALANCE'' None 1 new_sync)))
       = [PrioritizedItem 1 (IotaCanvasEvent ''LOW_BALANCE'' None),
          PrioritizedItem 100 (IotaCanvasEvent ''ARTWORK_UPDATED'' None)]"
  by (simp add: get_and_wait_on_event_def notifier_get.simps put_def cb_put_def new_sync_def
      convert_to_callback_event_def clear_notifier_def Let_def)

section \<open>Looking a job up\<close>






section \<open>Completing a job\<close>

text \<open>
  C5, as stated, makes a second completion of the same job fail. The \<^verbatim>\<open>UPDATE\<close> of the
  source has no such check: completing job 1 at time 60 and again at time 90 succeeds
  both times, and the second completion replaces the time and the file name.
\<close>

theorem update_job_completed_twice_overwrites:
  "job_table (update_job_completed (example_world\<lparr>clock := 60\<rparr>) 1 ''first.png'') 1
     = Some (example_job\<lparr>completed := Some 60, filename := Some ''first.png''\<rparr>)
   \<and> job_table (update_job_completed
                  ((update_job_completed (example_world\<lparr>clock := 60\<rparr>) 1 ''first.png'')\<lparr>clock := 90\<rparr>)
                  1 ''second.png'') 1
     = Some (example_job\<lparr>completed := Some 90, filename := Some ''second.png''\<rparr>)"
  by (simp add: update_job_completed_def example_world_def example_jobs_def)

text \<open>
  C5 (amended): the completion update sets \<^verbatim>\<open>completed\<close> to the current time and
  \<^verbatim>\<open>filename\<close> to the given name on the job's row and leaves every other row as it is;
  it never fails, and a second update of the same job, at time \<open>t\<close> with the name
  \<open>fname2\<close>, replaces both values.
\<close>

theorem update_job_completed_sets_and_overwrites:
  assumes "job_table w job_id = Some j"
  shows "job_table (update_job_completed w job_id fname) job_id
           = Some (j\<lparr>completed := Some (clock w), filename := Some fname\<rparr>)
         \<and> (\<forall>other. other \<noteq> job_id \<longrightarrow>
               job_table (update_job_completed w job_id fname) other = job_table w other)
         \<and> job_table (update_job_completed
                        ((update_job_completed w job_id fname)\<lparr>clock := t\<rparr>) job_id fname2) job_id
           = Some (j\<lparr>completed := Some t, filename := Some fname2\<rparr>)"
  using assms by (simp add: update_job_completed_def)

theorem update_job_completed_sets_and_overwrites_witness:
  "job_table example_world 1 = Some example_job
   \<and> job_table (update_job_completed example_world 1 ''art.png'') 1
       = Some (example_job\<lparr>completed := Some 0, filename := Some ''art.png''\<rparr>)
   \<and> job_table (update_job_completed
                  ((update_job_completed example_world 1 ''art.png'')\<lparr>clock := 30\<rparr>) 1 ''other.png'') 1
       = Some (example_job\<lparr>completed := Some 30, filename := Some ''other.png''\<rparr>)"
proof -
  have row: "job_table example_world 1 = Some example_job"
    by (simp add: example_world_def example_jobs_def)
  from update_job_completed_sets_and_overwrites [OF row, of "''art.png''" 30 "''other.png''"] row
  show ?thesis by (simp add: example_world_def)
qed

section \<open>Allocating address indices\<close>






section \<open>The payment watcher\<close>

subsection \<open>The polling loop\<close>


lemma poll_time_shift:
  "poll_time query (Suc k) now =
     poll_time query k (now + BALANCE_CHECK_INTERVAL + int (snd (query (now + BALANCE_CHECK_INTERVAL))))"
  by (induction k) simp_all

lemma poll_time_ge: "now \<le> poll_time query k now"
  by (induction k) (simp_all add: BALANCE_CHECK_INTERVAL_def)

text \<open>When the first \<open>k\<close> queries show a balance below the required one, the loop is
  still before the deadline after them, and the next query raises, the loop ends with
  that exception when that query ends.\<close>

lemma poll_payment_raises:
  assumes "bal < req"
    and "\<forall>i<k. \<exists>b. fst (query (poll_time query i now + BALANCE_CHECK_INTERVAL)) = Inr b \<and> b < req"
    and "poll_time query k now < dl"
    and "fst (query (poll_time query k now + BALANCE_CHECK_INTERVAL)) = Inl e"
  shows "poll_payment query req dl bal now = (Inl e, poll_time query (Suc k) now)"
  using assms
proof (induction k arbitrary: bal now)
  case 0
  then show ?case
    by (cases "query (now + BALANCE_CHECK_INTERVAL)")
       (simp add: poll_payment.simps [of query req dl bal now])
next
  case (Suc k)
  define now' where
    "now' = now + BALANCE_CHECK_INTERVAL + int (snd (query (now + BALANCE_CHECK_INTERVAL)))"
  have sh: "poll_time query (Suc i) now = poll_time query i now'" for i
    unfolding now'_def by (rule poll_time_shift)
  from Suc.prems(2) have "\<exists>b. fst (query (poll_time query 0 now + BALANCE_CHECK_INTERVAL)) = Inr b \<and> b < req"
    by blast
  then obtain b where b: "fst (query (now + BALANCE_CHECK_INTERVAL)) = Inr b" "b < req"
    by auto
  have later: "\<forall>i<k. \<exists>b. fst (query (poll_time query i now' + BALANCE_CHECK_INTERVAL)) = Inr b \<and> b < req"
  proof (intro allI impI)
    fix i assume "i < k"
    then have "Suc i < Suc k" by simp
    with Suc.prems(2)
    have "\<exists>b. fst (query (poll_time query (Suc i) now + BALANCE_CHECK_INTERVAL)) = Inr b \<and> b < req"
      by blast
    then show "\<exists>b. fst (query (poll_time query i now' + BALANCE_CHECK_INTERVAL)) = Inr b \<and> b < req"
      unfolding sh .
  qed
  have dl: "poll_time query k now' < dl"
    using Suc.prems(3) unfolding sh .
  have e: "fst (query (poll_time query k now' + BALANCE_CHECK_INTERVAL)) = Inl e"
    using Suc.prems(4) unfolding sh .
  have "now \<le> poll_time query (Suc k) now" by (rule poll_time_ge)
  then have now: "now < dl" using Suc.prems(3) by linarith
  have "poll_payment query req dl bal now = poll_payment query req dl b now'"
    using Suc.prems(1) now b
    by (cases "query (now + BALANCE_CHECK_INTERVAL)")
       (simp add: poll_payment.simps [of query req dl bal now] now'_def)
  also have "\<dots> = (Inl e, poll_time query (Suc k) now')"
    by (rule Suc.IH [OF b(2) later dl e])
  also have "poll_time query (Suc k) now' = poll_time query (Suc (Suc k)) now"
    by (rule sh [symmetric])
  finally show ?case .
qed


lemma select_info_row:
  assumes "job_table w job_id = Some j" and "artist_table w (ai_id j) = Some a"
  shows "select_info w job_id = Some (addr_index j, code a, surcharge a, average_time a)"
  using assms by (simp add: select_info_def)

subsection \<open>A job that is never paid\<close>




subsection \<open>A balance query that fails\<close>

text \<open>
  C6, as stated, lets the watcher go on polling after a failed query. In the source
  nothing catches the exception of \<^verbatim>\<open>iota.get_balance\<close>: on a ledger whose query at second
  30 fails and which shows the payment of 1000 from then on, the watcher of job 1 ends at
  second 30 with that exception, 570 seconds before the deadline, and the job stays as
  it was.
\<close>

theorem art_generator_unhandled_query_failure:
  "art_generator 1 flaky_ledger app_config example_plugin example_world
     = (Inl (Raised ''ConnectionError''), example_world\<lparr>clock := 30\<rparr>)
   \<and> clock example_world + 30 < clock example_world + 60 * WAIT_PAYMENT app_config
   \<and> fst (get_balance flaky_ledger 0 60) = Inr 1000"
proof -
  have req: "calc_cost app_config None 0 (Some app_config) = 1000"
    by (simp add: calc_cost_def app_config_def py_int_def)
  have ten: "WAIT_PAYMENT app_config = 10" by (simp add: app_config_def)
  have "art_generator 1 flaky_ledger app_config example_plugin example_world
     = (Inl (Raised ''ConnectionError''), example_world\<lparr>clock := 30\<rparr>)"
    by (simp add: art_generator_def select_info_def example_world_def example_jobs_def
        example_job_def req ten poll_payment.simps get_balance_def
        flaky_ledger_def BALANCE_CHECK_INTERVAL_def)
  then show ?thesis
    by (simp add: example_world_def app_config_def get_balance_def flaky_ledger_def)
qed

text \<open>
  C6 (amended): when a balance query inside the polling loop raises (the \<open>k\<close> earlier
  queries having shown less than the required cost, and the loop being still before the
  deadline after them), \<open>art_generator\<close> ends with that exception when the query ends:
  it polls no further, and it neither deletes nor completes the job, whose row stays as
  it was.
\<close>

theorem art_generator_query_failure_ends_watcher:
  assumes "job_table w job_id = Some j" and "artist_table w (ai_id j) = Some a"
    and "0 < calc_cost cfg (average_time a) (surcharge a) (Some cfg)"
    and "\<forall>i<k. \<exists>b. fst (get_balance iota (addr_index j)
                        (poll_time (get_balance iota (addr_index j)) i (clock w)
                           + BALANCE_CHECK_INTERVAL)) = Inr b
               \<and> b < calc_cost cfg (average_time a) (surcharge a) (Some cfg)"
    and "poll_time (get_balance iota (addr_index j)) k (clock w) < clock w + 60 * WAIT_PAYMENT cfg"
    and "fst (get_balance iota (addr_index j)
               (poll_time (get_balance iota (addr_index j)) k (clock w)
                  + BALANCE_CHECK_INTERVAL)) = Inl e"
  shows "art_generator job_id iota cfg plugin w
           = (Inl e, w\<lparr>clock := poll_time (get_balance iota (addr_index j)) k (clock w)
                 + BALANCE_CHECK_INTERVAL
                 + int (snd (get_balance iota (addr_index j)
                         (poll_time (get_balance iota (addr_index j)) k (clock w)
                            + BALANCE_CHECK_INTERVAL)))\<rparr>)"
  using poll_payment_raises [OF assms(3) assms(4) assms(5) assms(6)]
  by (simp add: art_generator_def select_info_row [OF assms(1,2)] Let_def)

text \<open>On the ledger that answers after 2 seconds and fails from second 60 on, the first
  query (second 30 to 32) shows no payment and the second (second 62 to 64) raises.\<close>

theorem art_generator_query_failure_ends_watcher_witness:
  "art_generator 1 failing_ledger app_config example_plugin example_world
     = (Inl (Raised ''ConnectionError''), example_world\<lparr>clock := 64\<rparr>)"
proof -
  have job: "job_table example_world 1 = Some example_job"
    by (simp add: example_world_def example_jobs_def)
  have artist: "artist_table example_world (ai_id example_job)
      = Some \<lparr>code = ''a1b2c3d4/artist'', surcharge = 0, average_time = None\<rparr>"
    by (simp add: example_world_def example_job_def)
  have req: "calc_cost app_config None 0 (Some app_config) = 1000"
    by (simp add: calc_cost_def app_config_def py_int_def)
  have cost: "0 < calc_cost app_config
      (average_time \<lparr>code = ''a1b2c3d4/artist'', surcharge = 0, average_time = None\<rparr>)
      (surcharge \<lparr>code = ''a1b2c3d4/artist'', surcharge = 0, average_time = None\<rparr>)
      (Some app_config)"
    by (simp add: req)
  have t1: "poll_time (get_balance failing_ledger (addr_index example_job)) 1 (clock example_world) = 32"
    by (simp add: get_balance_def failing_ledger_def example_world_def BALANCE_CHECK_INTERVAL_def)
  have before: "\<forall>i<1. \<exists>b. fst (get_balance failing_ledger (addr_index example_job)
          (poll_time (get_balance failing_ledger (addr_index example_job)) i (clock example_world)
             + BALANCE_CHECK_INTERVAL)) = Inr b
      \<and> b < calc_cost app_config
          (average_time \<lparr>code = ''a1b2c3d4/artist'', surcharge = 0, average_time = None\<rparr>)
          (surcharge \<lparr>code = ''a1b2c3d4/artist'', surcharge = 0, average_time = None\<rparr>)
          (Some app_config)"
    by (simp add: get_balance_def failing_ledger_def req example_world_def BALANCE_CHECK_INTERVAL_def)
  have early: "poll_time (get_balance failing_ledger (addr_index example_job)) 1 (clock example_world)
      < clock example_world + 60 * WAIT_PAYMENT app_config"
    unfolding t1 by (simp add: example_world_def app_config_def)
  have fails: "fst (get_balance failing_ledger (addr_index example_job)
      (poll_time (get_balance failing_ledger (addr_index example_job)) 1 (clock example_world)
         + BALANCE_CHECK_INTERVAL)) = Inl (Raised ''ConnectionError'')"
    unfolding t1 by (simp add: get_balance_def failing_ledger_def BALANCE_CHECK_INTERVAL_def)
  from art_generator_query_failure_ends_watcher [OF job artist cost before early fails,
      of example_plugin]
  show ?thesis
    unfolding t1 by (simp add: get_balance_def failing_ledger_def BALANCE_CHECK_INTERVAL_def)
qed

subsection \<open>A job that costs nothing\<close>



end
